theory Spec2Isabelle
  imports Complex_Main
begin

section \<open>JavaScript values\<close>

text \<open>
  A JavaScript number is modelled as a real: rounding, NaN and the infinities of IEEE
  doubles are left out. An optional field is an \<open>option\<close>, \<open>None\<close> standing for
  \<open>undefined\<close>. The text a template literal gives a number (\<open>Number::toString\<close>) is
  a parameter \<open>fmt\<close> of every function that builds a directive; array indices, which are
  natural numbers, are written in decimal by \<open>show_nat\<close>.
\<close>

type_synonym num_fmt = "real \<Rightarrow> string"

fun show_nat :: "nat \<Rightarrow> string" where
  "show_nat n =
     (if n < 10 then [''0123456789'' ! n]
      else show_nat (n div 10) @ [''0123456789'' ! (n mod 10)])"

declare show_nat.simps [simp del]

definition show_int :: "int \<Rightarrow> string" where
  "show_int i = (if i < 0 then ''-'' @ show_nat (nat (- i)) else show_nat (nat i))"

text \<open>A formatter that agrees with JavaScript on integral numbers; used at concrete inputs.\<close>

definition fmt_integral :: num_fmt where
  "fmt_integral x = show_int \<lfloor>x\<rfloor>"

text \<open>Truthiness of an optional number, boolean and string, as \<open>if (x)\<close> tests it.\<close>

definition truthy_num :: "real option \<Rightarrow> bool" where
  "truthy_num x = (case x of None \<Rightarrow> False | Some v \<Rightarrow> v \<noteq> 0)"

definition truthy_bool :: "bool option \<Rightarrow> bool" where
  "truthy_bool x = (case x of None \<Rightarrow> False | Some b \<Rightarrow> b)"

definition truthy_str :: "string option \<Rightarrow> bool" where
  "truthy_str x = (case x of None \<Rightarrow> False | Some s \<Rightarrow> s \<noteq> [])"

text \<open>\<open>x || d\<close> on an optional number: the default replaces every falsy value.\<close>

definition or_num :: "real option \<Rightarrow> real \<Rightarrow> real" where
  "or_num x d = (case x of None \<Rightarrow> d | Some v \<Rightarrow> if v = 0 then d else v)"

definition or_str :: "string option \<Rightarrow> string \<Rightarrow> string" where
  "or_str x d = (case x of None \<Rightarrow> d | Some s \<Rightarrow> if s = [] then d else s)"

text \<open>\<open>Array.prototype.join\<close> on strings.\<close>

fun join :: "string \<Rightarrow> string list \<Rightarrow> string" where
  "join sep [] = []"
| "join sep [x] = x"
| "join sep (x # y # ys) = x @ sep @ join sep (y # ys)"

text \<open>
  A thrown value: an \<open>Error\<close> object with its message (\<open>FFmpegError\<close> is one), or any
  other value.
\<close>

datatype thrown = ErrorObj string | OtherValue

section \<open>Operation model (types/index.ts)\<close>

record VolumeOperation =
  adjust :: "real option"
  normalize :: "bool option"
  targetLUFS :: "real option"

record FormatOperation =
  sampleRate :: "real option"
  bitrate :: "real option"
  channels :: "real option"
  codec :: "string option"

record Trim =
  trim_start :: real
  trim_end :: real

record Loop =
  enabled :: bool
  loop_count :: real

record EffectsOperation =
  fadeIn :: "real option"
  fadeOut :: "real option"
  trim :: "Trim option"
  loop :: "Loop option"

record PitchOperation =
  semitones :: real
  cents :: "real option"
  preserveFormants :: "bool option"

record TempoOperation =
  factor :: real
  preservePitch :: "bool option"

record HarmonicsOperation =
  octaveUp :: "real option"
  octaveDown :: "real option"
  fifthUp :: "real option"
  thirdUp :: "real option"

record SpectralOperation =
  bassBoost :: "real option"
  trebleBoost :: "real option"
  midCut :: "real option"
  warmth :: "real option"
  brightness :: "real option"

record Compressor =
  comp_threshold :: real
  comp_ratio :: real
  comp_attack :: real
  comp_release :: real
  comp_knee :: "real option"

record Gate =
  gate_threshold :: real
  gate_ratio :: real
  gate_attack :: "real option"
  gate_release :: "real option"

record Limiter =
  lim_threshold :: real
  lim_release :: "real option"

record DynamicsOperation =
  compressor :: "Compressor option"
  gate :: "Gate option"
  limiter :: "Limiter option"

record SpatialOperation =
  stereoWidth :: "real option"
  panPosition :: "real option"
  reverbSend :: "real option"
  delayTime :: "real option"
  delayFeedback :: "real option"

record EnvelopeOperation =
  env_attack :: real
  env_decay :: real
  env_sustain :: real
  env_release :: real

record Tremolo =
  trem_rate :: real
  trem_depth :: real
  trem_waveform :: "string option"

record Vibrato =
  vib_rate :: real
  vib_depth :: real
  vib_waveform :: "string option"

record Chorus =
  chorus_rate :: real
  chorus_depth :: real
  chorus_delay :: real

record ModulationOperation =
  tremolo :: "Tremolo option"
  vibrato :: "Vibrato option"
  chorus :: "Chorus option"

text \<open>
  The seed is an integer here; the generator's arithmetic on it is exact in doubles as
  long as its magnitude is below \<open>2^32\<close>.
\<close>

record VariationOperation =
  count :: int
  pitchRange :: "real option"
  volumeRange :: "real option"
  timingRange :: "real option"
  spectralRange :: "real option"
  seed :: "int option"

datatype Blend = Mix | Multiply | Add | Subtract

record Layer =
  blend :: Blend
  layer_delay :: "real option"
  layer_pitch :: "real option"
  layer_volume :: "real option"
  layer_pan :: "real option"

record LayeringOperation =
  layers :: "Layer list"

record AdvancedEffectsOperation =
  pitch :: "PitchOperation option"
  tempo :: "TempoOperation option"
  harmonics :: "HarmonicsOperation option"
  spectral :: "SpectralOperation option"
  dynamics :: "DynamicsOperation option"
  spatial :: "SpatialOperation option"
  envelope :: "EnvelopeOperation option"
  modulation :: "ModulationOperation option"
  variations :: "VariationOperation option"
  layering :: "LayeringOperation option"

record AudioOperations =
  volume :: "VolumeOperation option"
  format :: "FormatOperation option"
  effects :: "EffectsOperation option"
  advanced :: "AdvancedEffectsOperation option"

record ProcessingInput =
  in_file :: "string option"
  in_directory :: "string option"
  in_pattern :: "string option"

record ProcessingOutput =
  out_file :: "string option"
  out_directory :: "string option"
  out_suffix :: "string option"
  out_format :: "string option"

record ProcessingResult =
  success :: bool
  inputFile :: string
  outputFile :: string
  processingTime :: int
  operations :: AudioOperations
  error :: "string option"

record BatchProcessingResult =
  totalFiles :: nat
  successfulFiles :: nat
  failedFiles :: nat
  results :: "ProcessingResult list"
  totalProcessingTime :: int

section \<open>The engine command\<close>

text \<open>
  The state of a fluent-ffmpeg command as far as this program sets it. \<open>audioFilters\<close>
  takes one filter or an array of filters and appends their text to the command's filter
  list at the time of the call; the command keeps no reference to the caller's array.
\<close>

record command =
  cmd_input :: string
  audio_filters :: "string list"
  audio_frequency :: "real option"
  audio_channels :: "real option"
  audio_codec :: "string option"
  audio_bitrate :: "string option"
  seek_input :: "real option"
  duration_cap :: "real option"

definition createFFmpegCommand :: "string \<Rightarrow> command" where
  "createFFmpegCommand inputPath =
     \<lparr>cmd_input = inputPath, audio_filters = [], audio_frequency = None,
      audio_channels = None, audio_codec = None, audio_bitrate = None,
      seek_input = None, duration_cap = None\<rparr>"

definition audioFilters :: "string list \<Rightarrow> command \<Rightarrow> command" where
  "audioFilters fs c = c\<lparr>audio_filters := audio_filters c @ fs\<rparr>"

definition audioFrequency :: "real \<Rightarrow> command \<Rightarrow> command" where
  "audioFrequency v c = c\<lparr>audio_frequency := Some v\<rparr>"

definition audioChannels :: "real \<Rightarrow> command \<Rightarrow> command" where
  "audioChannels v c = c\<lparr>audio_channels := Some v\<rparr>"

definition audioCodec :: "string \<Rightarrow> command \<Rightarrow> command" where
  "audioCodec v c = c\<lparr>audio_codec := Some v\<rparr>"

definition audioBitrate :: "string \<Rightarrow> command \<Rightarrow> command" where
  "audioBitrate v c = c\<lparr>audio_bitrate := Some v\<rparr>"

definition seekInput :: "real \<Rightarrow> command \<Rightarrow> command" where
  "seekInput v c = c\<lparr>seek_input := Some v\<rparr>"

definition duration :: "real \<Rightarrow> command \<Rightarrow> command" where
  "duration v c = c\<lparr>duration_cap := Some v\<rparr>"

section \<open>BaseAudioProcessor.applyOperationsToCommand\<close>

definition mapCodecToFFmpeg :: "string \<Rightarrow> string" where
  "mapCodecToFFmpeg c =
     or_str (map_of [(''pcm'', ''pcm_s16le''), (''mp3'', ''libmp3lame''), (''aac'', ''aac''),
                     (''vorbis'', ''libvorbis''), (''flac'', ''flac'')] c) c"

definition applyVolume :: "num_fmt \<Rightarrow> VolumeOperation option \<Rightarrow> command \<Rightarrow> command" where
  "applyVolume fmt vol c =
     (case vol of
        None \<Rightarrow> c
      | Some v \<Rightarrow>
          (let c1 = (case adjust v of
                       None \<Rightarrow> c
                     | Some a \<Rightarrow> audioFilters [''volume='' @ fmt a @ ''dB''] c)
           in if truthy_bool (normalize v)
              then audioFilters
                     [''loudnorm=I='' @ fmt (or_num (targetLUFS v) (- 23)) @ '':LRA=7:tp=-2''] c1
              else c1))"

definition applyFormat :: "num_fmt \<Rightarrow> FormatOperation option \<Rightarrow> command \<Rightarrow> command" where
  "applyFormat fmt fo c =
     (case fo of
        None \<Rightarrow> c
      | Some f \<Rightarrow>
          (let c1 = (if truthy_num (sampleRate f) then audioFrequency (the (sampleRate f)) c else c);
               c2 = (if truthy_num (channels f) then audioChannels (the (channels f)) c1 else c1);
               c3 = (if truthy_str (codec f)
                     then audioCodec (mapCodecToFFmpeg (the (codec f))) c2 else c2)
           in if truthy_num (bitrate f)
              then audioBitrate (fmt (the (bitrate f)) @ ''k'') c3 else c3))"

text \<open>
  The effects block keeps a local array \<open>filters\<close>. The function returns the command
  together with the final content of that array, which the source drops on return.
\<close>

definition applyEffects ::
  "num_fmt \<Rightarrow> EffectsOperation option \<Rightarrow> command \<Rightarrow> command \<times> string list" where
  "applyEffects fmt eo c =
     (case eo of
        None \<Rightarrow> (c, [])
      | Some e \<Rightarrow>
          (let filters1 = (case fadeIn e of
                             None \<Rightarrow> []
                           | Some d \<Rightarrow> [''afade=t=in:ss=0:d='' @ fmt d]);
               filters2 = filters1 @
                          (case fadeOut e of
                             None \<Rightarrow> []
                           | Some s \<Rightarrow> [''afade=t=out:st='' @ fmt s @ '':d=1'']);
               c1 = (case trim e of
                       None \<Rightarrow> c
                     | Some t \<Rightarrow>
                         (let cs = seekInput (trim_start t) c
                          in if trim_end t > trim_start t
                             then duration (trim_end t - trim_start t) cs else cs));
               c2 = (if length filters2 > 0 then audioFilters filters2 c1 else c1);
               filters3 = (case loop e of
                             None \<Rightarrow> filters2
                           | Some l \<Rightarrow>
                               if enabled l \<and> loop_count l > 1
                               then filters2 @
                                    [''aloop=loop='' @ fmt (loop_count l - 1) @ '':size=samples'']
                               else filters2)
           in (c2, filters3)))"

definition applyOperationsToCommand :: "num_fmt \<Rightarrow> command \<Rightarrow> AudioOperations \<Rightarrow> command" where
  "applyOperationsToCommand fmt c ops =
     fst (applyEffects fmt (effects ops)
            (applyFormat fmt (format ops) (applyVolume fmt (volume ops) c)))"

section \<open>AdvancedAudioProcessor: filter builders\<close>

definition buildPitchFilter :: "num_fmt \<Rightarrow> PitchOperation \<Rightarrow> string" where
  "buildPitchFilter fmt p =
     (let totalCents = semitones p * 100 + or_num (cents p) 0;
          ratio = 2 powr (totalCents / 1200)
      in if truthy_bool (preserveFormants p)
         then ''asetrate=44100*'' @ fmt ratio @ '',aresample=44100,atempo='' @ fmt (1 / ratio)
         else ''asetrate=44100*'' @ fmt ratio @ '',aresample=44100'')"

definition buildTempoFilter :: "num_fmt \<Rightarrow> TempoOperation \<Rightarrow> string" where
  "buildTempoFilter fmt t =
     (if truthy_bool (preservePitch t)
      then ''atempo='' @ fmt (factor t)
      else ''asetrate=44100*'' @ fmt (factor t) @ '',aresample=44100'')"

definition buildSpectralFilter :: "num_fmt \<Rightarrow> SpectralOperation \<Rightarrow> string" where
  "buildSpectralFilter fmt s =
     (let eqBands =
            (case bassBoost s of None \<Rightarrow> [] | Some b \<Rightarrow> [''bass=g='' @ fmt b]) @
            (case trebleBoost s of None \<Rightarrow> [] | Some t \<Rightarrow> [''treble=g='' @ fmt t]) @
            (case midCut s of
               None \<Rightarrow> []
             | Some m \<Rightarrow> [''equalizer=f=1000:width=500:g='' @ fmt (- \<bar>m\<bar>)]) @
            (case warmth s of
               None \<Rightarrow> []
             | Some w \<Rightarrow> [''equalizer=f=200:width=100:g='' @ fmt (w * 3)]) @
            (case brightness s of
               None \<Rightarrow> []
             | Some b \<Rightarrow> [''equalizer=f=8000:width=2000:g='' @ fmt (b * 4)])
      in join '','' eqBands)"

definition buildDynamicsFilters :: "num_fmt \<Rightarrow> DynamicsOperation \<Rightarrow> string list" where
  "buildDynamicsFilters fmt d =
     (case compressor d of
        None \<Rightarrow> []
      | Some cmp \<Rightarrow>
          [''acompressor=threshold='' @ fmt (comp_threshold cmp) @ ''dB:ratio='' @
           fmt (comp_ratio cmp) @ '':attack='' @ fmt (comp_attack cmp) @ '':release='' @
           fmt (comp_release cmp) @
           (if truthy_num (comp_knee cmp) then '':knee='' @ fmt (the (comp_knee cmp)) else [])]) @
     (case gate d of
        None \<Rightarrow> []
      | Some g \<Rightarrow>
          [''agate=threshold='' @ fmt (gate_threshold g) @ ''dB:ratio='' @ fmt (gate_ratio g) @
           (if truthy_num (gate_attack g) then '':attack='' @ fmt (the (gate_attack g)) else []) @
           (if truthy_num (gate_release g)
            then '':release='' @ fmt (the (gate_release g)) else [])]) @
     (case limiter d of
        None \<Rightarrow> []
      | Some l \<Rightarrow>
          [''alimiter=limit='' @ fmt (lim_threshold l) @ ''dB'' @
           (if truthy_num (lim_release l) then '':release='' @ fmt (the (lim_release l)) else [])])"

text \<open>The pan directive, shared in text by the spatial builder and the layering builder.\<close>

definition panFilter :: "num_fmt \<Rightarrow> real \<Rightarrow> string" where
  "panFilter fmt p =
     ''pan=stereo|c0='' @ fmt (1 - \<bar>min 0 p\<bar>) @ ''*c0+'' @ fmt (max 0 (- p)) @
     ''*c1|c1='' @ fmt (1 - \<bar>max 0 p\<bar>) @ ''*c1+'' @ fmt (max 0 p) @ ''*c0''"

definition buildSpatialFilters :: "num_fmt \<Rightarrow> SpatialOperation \<Rightarrow> string list" where
  "buildSpatialFilters fmt sp =
     (case stereoWidth sp of None \<Rightarrow> [] | Some w \<Rightarrow> [''extrastereo=m='' @ fmt w]) @
     (case panPosition sp of None \<Rightarrow> [] | Some p \<Rightarrow> [panFilter fmt p]) @
     (case delayTime sp of
        None \<Rightarrow> []
      | Some dt \<Rightarrow>
          (let feedback = or_num (delayFeedback sp) 0.3
           in [''adelay='' @ fmt dt @ ''|'' @ fmt dt] @
              (if feedback > 0 then [''afeedback=feedback='' @ fmt feedback] else []))) @
     (case reverbSend sp of
        None \<Rightarrow> []
      | Some r \<Rightarrow>
          [''aecho=0.8:0.9:'' @ fmt (real_of_int \<lfloor>r * 1000\<rfloor>) @ '':'' @ fmt r])"

definition buildModulationFilters :: "num_fmt \<Rightarrow> ModulationOperation \<Rightarrow> string list" where
  "buildModulationFilters fmt m =
     (case tremolo m of
        None \<Rightarrow> []
      | Some t \<Rightarrow> [''tremolo=f='' @ fmt (trem_rate t) @ '':d='' @ fmt (trem_depth t)]) @
     (case vibrato m of
        None \<Rightarrow> []
      | Some v \<Rightarrow> [''vibrato=f='' @ fmt (vib_rate v) @ '':d='' @ fmt (vib_depth v)]) @
     (case chorus m of
        None \<Rightarrow> []
      | Some ch \<Rightarrow>
          [''chorus=0.7:0.9:'' @ fmt (chorus_delay ch) @ '':0.25:'' @ fmt (chorus_rate ch) @
           '':'' @ fmt (chorus_depth ch) @ '':t''])"

definition applyAdvancedOperations ::
  "num_fmt \<Rightarrow> command \<Rightarrow> AdvancedEffectsOperation \<Rightarrow> command" where
  "applyAdvancedOperations fmt c adv =
     (let filters =
            (case pitch adv of None \<Rightarrow> [] | Some p \<Rightarrow> [buildPitchFilter fmt p]) @
            (case tempo adv of None \<Rightarrow> [] | Some t \<Rightarrow> [buildTempoFilter fmt t]) @
            (case spectral adv of
               None \<Rightarrow> []
             | Some s \<Rightarrow>
                 (let spectralFilter = buildSpectralFilter fmt s
                  in if spectralFilter \<noteq> [] then [spectralFilter] else [])) @
            (case dynamics adv of None \<Rightarrow> [] | Some d \<Rightarrow> buildDynamicsFilters fmt d) @
            (case spatial adv of None \<Rightarrow> [] | Some sp \<Rightarrow> buildSpatialFilters fmt sp) @
            (case modulation adv of None \<Rightarrow> [] | Some m \<Rightarrow> buildModulationFilters fmt m)
      in if length filters > 0 then audioFilters filters c else c)"

text \<open>The override of \<open>applyOperationsToCommand\<close> in \<open>AdvancedAudioProcessor\<close>.\<close>

definition advancedApplyOperationsToCommand ::
  "num_fmt \<Rightarrow> command \<Rightarrow> AudioOperations \<Rightarrow> command" where
  "advancedApplyOperationsToCommand fmt c ops =
     (let c1 = applyOperationsToCommand fmt c ops
      in case advanced ops of None \<Rightarrow> c1 | Some adv \<Rightarrow> applyAdvancedOperations fmt c1 adv)"

subsection \<open>Layering\<close>

text \<open>The text the \<open>forEach\<close> callback adds for layer \<open>i\<close> when \<open>i < inputFiles.length\<close>.\<close>

definition layerFilter :: "num_fmt \<Rightarrow> nat \<Rightarrow> Layer \<Rightarrow> string" where
  "layerFilter fmt i layer =
     (let n = show_nat i;
          f0 = ''['' @ n @ '':a]'';
          f1 = (if truthy_num (layer_delay layer)
                then f0 @ ''adelay='' @ fmt (the (layer_delay layer)) @
                     ''[delayed'' @ n @ ''];[delayed'' @ n @ '']''
                else f0);
          f2 = (if truthy_num (layer_pitch layer)
                then f1 @ ''asetrate=44100*'' @ fmt (2 powr (the (layer_pitch layer) / 12)) @
                     '',aresample=44100[pitched'' @ n @ ''];[pitched'' @ n @ '']''
                else f1);
          f3 = (case layer_volume layer of
                  None \<Rightarrow> f2
                | Some v \<Rightarrow> f2 @ ''volume='' @ fmt v @ ''[vol'' @ n @ ''];[vol'' @ n @ '']'');
          f4 = (case layer_pan layer of
                  None \<Rightarrow> f3
                | Some p \<Rightarrow> f3 @ panFilter fmt p @ ''[pan'' @ n @ ''];[pan'' @ n @ '']'')
      in f4 @ ''[processed'' @ n @ ''];'')"

text \<open>The indices of the layers the \<open>forEach\<close> processes, and those the mix-down names.\<close>

definition processedIndices :: "string list \<Rightarrow> LayeringOperation \<Rightarrow> nat list" where
  "processedIndices inputFiles lop =
     filter (\<lambda>i. i < length inputFiles) [0..<length (layers lop)]"

definition mixIndices :: "LayeringOperation \<Rightarrow> nat list" where
  "mixIndices lop = [0..<length (layers lop)]"

definition buildLayeringFilter :: "num_fmt \<Rightarrow> string list \<Rightarrow> LayeringOperation \<Rightarrow> string" where
  "buildLayeringFilter fmt inputFiles lop =
     (let ls = layers lop;
          filterGraph = concat (map (\<lambda>i. layerFilter fmt i (ls ! i))
                                    (processedIndices inputFiles lop));
          mixInputs = join [] (map (\<lambda>i. ''[processed'' @ show_nat i @ '']'') (mixIndices lop))
      in filterGraph @ mixInputs @ ''amix=inputs='' @ show_nat (length ls) @
         '':duration=longest:dropout_transition=2[final]'')"

subsection \<open>Seeded random numbers and variations\<close>

text \<open>The remainder operator \<open>%\<close> on integers: the result has the sign of the dividend.\<close>

definition js_rem :: "int \<Rightarrow> int \<Rightarrow> int" where
  "js_rem a m = (if a < 0 then - ((- a) mod m) else a mod m)"

text \<open>
  \<open>createSeededRandom\<close> returns a closure over \<open>state\<close>. The closure is the function
  \<open>rng\<close> below: from the state before a call to the state after it and the number
  returned. \<open>createSeededRandom\<close> itself gives the first state.
\<close>

definition createSeededRandom :: "int \<Rightarrow> int" where
  "createSeededRandom sd = sd"

definition rng :: "int \<Rightarrow> int \<times> real" where
  "rng state =
     (let state' = js_rem (state * 1664525 + 1013904223) 4294967296
      in (state', real_of_int state' / 4294967296))"

definition noAdvanced :: AdvancedEffectsOperation where
  "noAdvanced =
     \<lparr>pitch = None, tempo = None, harmonics = None, spectral = None, dynamics = None,
      spatial = None, envelope = None, modulation = None, variations = None,
      layering = None\<rparr>"

definition generateRandomVariation ::
  "VariationOperation \<Rightarrow> int \<Rightarrow> AdvancedEffectsOperation \<times> int" where
  "generateRandomVariation v st0 =
     (let variation0 = noAdvanced;
          (variation1, st1) =
            (if truthy_num (pitchRange v)
             then (let (s, r) = rng st0;
                       pitchShift = (r - 0.5) * 2 * the (pitchRange v)
                   in (variation0\<lparr>pitch := Some \<lparr>semitones = pitchShift, cents = None,
                                                  preserveFormants = None\<rparr>\<rparr>, s))
             else (variation0, st0));
          (variation2, st2) =
            (if truthy_num (spectralRange v)
             then (let (sa, ra) = rng st1;
                       bassShift = (ra - 0.5) * 2 * the (spectralRange v);
                       (sb, rb) = rng sa;
                       trebleShift = (rb - 0.5) * 2 * the (spectralRange v)
                   in (variation1\<lparr>spectral := Some \<lparr>bassBoost = Some bassShift,
                                                     trebleBoost = Some trebleShift,
                                                     midCut = None, warmth = None,
                                                     brightness = None\<rparr>\<rparr>, sb))
             else (variation1, st1))
      in if truthy_num (timingRange v)
         then (let (s, r) = rng st2;
                   tempoShift = 1 + (r - 0.5) * 0.2
               in (variation2\<lparr>tempo := Some \<lparr>factor = tempoShift,
                                              preservePitch = Some True\<rparr>\<rparr>, s))
         else (variation2, st2))"

definition spreadAdvanced ::
  "AdvancedEffectsOperation option \<Rightarrow> AdvancedEffectsOperation \<Rightarrow> AdvancedEffectsOperation" where
  "spreadAdvanced baseAdv variation =
     (let b = (case baseAdv of None \<Rightarrow> noAdvanced | Some a \<Rightarrow> a)
      in \<lparr>pitch = (case pitch variation of None \<Rightarrow> pitch b | Some x \<Rightarrow> Some x),
          tempo = (case tempo variation of None \<Rightarrow> tempo b | Some x \<Rightarrow> Some x),
          harmonics = (case harmonics variation of None \<Rightarrow> harmonics b | Some x \<Rightarrow> Some x),
          spectral = (case spectral variation of None \<Rightarrow> spectral b | Some x \<Rightarrow> Some x),
          dynamics = (case dynamics variation of None \<Rightarrow> dynamics b | Some x \<Rightarrow> Some x),
          spatial = (case spatial variation of None \<Rightarrow> spatial b | Some x \<Rightarrow> Some x),
          envelope = (case envelope variation of None \<Rightarrow> envelope b | Some x \<Rightarrow> Some x),
          modulation = (case modulation variation of None \<Rightarrow> modulation b | Some x \<Rightarrow> Some x),
          variations = (case variations variation of None \<Rightarrow> variations b | Some x \<Rightarrow> Some x),
          layering = (case layering variation of None \<Rightarrow> layering b | Some x \<Rightarrow> Some x)\<rparr>)"

text \<open>\<open>{...baseOperations, advanced: {...baseOperations?.advanced, ...variation}}\<close>\<close>

definition variationOperations ::
  "AudioOperations option \<Rightarrow> AdvancedEffectsOperation \<Rightarrow> AudioOperations" where
  "variationOperations baseOperations variation =
     (case baseOperations of
        None \<Rightarrow> \<lparr>volume = None, format = None, effects = None,
                 advanced = Some (spreadAdvanced None variation)\<rparr>
      | Some b \<Rightarrow> b\<lparr>advanced := Some (spreadAdvanced (advanced b) variation)\<rparr>)"

section \<open>The world outside the program\<close>

text \<open>
  The functions of Node's \<open>path\<close> module that the program calls, taken as parameters.
\<close>

record node_path =
  p_join :: "string \<Rightarrow> string \<Rightarrow> string"
  p_dirname :: "string \<Rightarrow> string"
  p_basename :: "string \<Rightarrow> string"
  p_basename_ext :: "string \<Rightarrow> string \<Rightarrow> string"
  p_extname :: "string \<Rightarrow> string"
  p_relative :: "string \<Rightarrow> string \<Rightarrow> string"
  p_parse_name :: "string \<Rightarrow> string"

text \<open>
  What one job observes of the file system, the engine and the clock. A file-system call
  that rejects gives the error's code and message. The engine ends, or reports an error
  with a message. Every awaited operation is taken to settle; an engine that never
  reports is outside this model. \<open>now_start\<close> and \<open>now_end\<close> are the readings of
  \<open>Date.now()\<close> on entry and at the terminal state.
\<close>

datatype access_mode = F_OK | R_OK | W_OK

type_synonym fs_error = "string \<times> string"

record world =
  fs_stat :: "string \<Rightarrow> fs_error + bool"
  fs_access :: "string \<Rightarrow> access_mode \<Rightarrow> fs_error option"
  fs_mkdir :: "string \<Rightarrow> fs_error option"
  engine :: "command \<Rightarrow> string \<Rightarrow> string option"
  now_start :: int
  now_end :: int

section \<open>utils/ffmpeg.ts\<close>

definition validateInputFile :: "world \<Rightarrow> string \<Rightarrow> thrown + unit" where
  "validateInputFile W filePath =
     (case fs_stat W filePath of
        Inl err \<Rightarrow>
          Inl (ErrorObj (''Cannot access input file: '' @ filePath @ '' - '' @ snd err))
      | Inr isFile \<Rightarrow>
          if \<not> isFile then Inl (ErrorObj (''Path is not a file: '' @ filePath))
          else (case fs_access W filePath R_OK of
                  Some err \<Rightarrow>
                    Inl (ErrorObj (''Cannot access input file: '' @ filePath @ '' - '' @ snd err))
                | None \<Rightarrow> Inr ()))"

definition ensureOutputDirectory :: "node_path \<Rightarrow> world \<Rightarrow> string \<Rightarrow> thrown + unit" where
  "ensureOutputDirectory P W filePath =
     (let outputDir = p_dirname P filePath
      in case fs_mkdir W outputDir of
           Some err \<Rightarrow>
             Inl (ErrorObj (''Cannot create or access output directory: '' @
                            p_dirname P filePath @ '' - '' @ snd err))
         | None \<Rightarrow>
             (case fs_access W outputDir W_OK of
                Some err \<Rightarrow>
                  Inl (ErrorObj (''Cannot create or access output directory: '' @
                                 p_dirname P filePath @ '' - '' @ snd err))
              | None \<Rightarrow> Inr ()))"

definition handleExistingOutput :: "world \<Rightarrow> string \<Rightarrow> bool \<Rightarrow> thrown + unit" where
  "handleExistingOutput W outputPath overwrite =
     (case fs_access W outputPath F_OK of
        None \<Rightarrow>
          if \<not> overwrite
          then Inl (ErrorObj (''Output file already exists: '' @ outputPath @
                              ''. Use overwrite option to replace.''))
          else Inr ()
      | Some err \<Rightarrow> if fst err = ''ENOENT'' then Inr () else Inl (ErrorObj (snd err)))"

definition executeFFmpegCommand :: "world \<Rightarrow> command \<Rightarrow> string \<Rightarrow> thrown + unit" where
  "executeFFmpegCommand W cmd outputPath =
     (case engine W cmd outputPath of
        None \<Rightarrow> Inr ()
      | Some msg \<Rightarrow> Inl (ErrorObj (''FFmpeg processing failed: '' @ msg)))"

definition generateOutputFilename ::
  "node_path \<Rightarrow> string \<Rightarrow> string option \<Rightarrow> string option \<Rightarrow> string option \<Rightarrow> string" where
  "generateOutputFilename P inputPath outputDir suffixArg newExtension =
     (let suffix = (case suffixArg of None \<Rightarrow> ''_processed'' | Some s \<Rightarrow> s);
          inputDir = p_dirname P inputPath;
          inputName = p_basename_ext P inputPath (p_extname P inputPath);
          inputExt = p_extname P inputPath;
          outputDirectory = or_str outputDir inputDir;
          extension = (if truthy_str newExtension then ''.'' @ the newExtension else inputExt)
      in p_join P outputDirectory (inputName @ suffix @ extension))"

section \<open>BaseAudioProcessor: the job runner\<close>

text \<open>
  \<open>applyOperationsToCommand\<close> is a method that subclasses override, and the calls it makes
  into the command library may throw: the runner takes it as a parameter that returns
  the command or throws. A result \<open>Inl\<close> of the runner would be an exception leaving it.
\<close>

type_synonym compile_fn = "command \<Rightarrow> AudioOperations \<Rightarrow> thrown + command"

definition baseCompile :: "num_fmt \<Rightarrow> compile_fn" where
  "baseCompile fmt c ops = Inr (applyOperationsToCommand fmt c ops)"

definition advancedCompile :: "num_fmt \<Rightarrow> compile_fn" where
  "advancedCompile fmt c ops = Inr (advancedApplyOperationsToCommand fmt c ops)"

definition processAudioFile ::
  "node_path \<Rightarrow> world \<Rightarrow> compile_fn \<Rightarrow> string \<Rightarrow> string \<Rightarrow> AudioOperations \<Rightarrow> bool \<Rightarrow>
   thrown + ProcessingResult" where
  "processAudioFile P W compile inputPath outputPath ops overwrite =
     (let startTime = now_start W;
          body =
            (case validateInputFile W inputPath of
               Inl e \<Rightarrow> Inl e
             | Inr _ \<Rightarrow>
                 (case ensureOutputDirectory P W outputPath of
                    Inl e \<Rightarrow> Inl e
                  | Inr _ \<Rightarrow>
                      (case handleExistingOutput W outputPath overwrite of
                         Inl e \<Rightarrow> Inl e
                       | Inr _ \<Rightarrow>
                           (case compile (createFFmpegCommand inputPath) ops of
                              Inl e \<Rightarrow> Inl e
                            | Inr cmd \<Rightarrow> executeFFmpegCommand W cmd outputPath))))
      in case body of
           Inr _ \<Rightarrow>
             Inr \<lparr>success = True, inputFile = inputPath, outputFile = outputPath,
                  processingTime = now_end W - startTime, operations = ops, error = None\<rparr>
         | Inl e \<Rightarrow>
             Inr \<lparr>success = False, inputFile = inputPath, outputFile = outputPath,
                  processingTime = now_end W - startTime, operations = ops,
                  error = Some (case e of ErrorObj msg \<Rightarrow> msg | OtherValue \<Rightarrow> ''Unknown error'')\<rparr>)"

section \<open>BaseAudioProcessor: batch processing\<close>

text \<open>
  What a batch call observes: the files a glob pattern finds (or the glob's rejection),
  the world of the job at each position, the time at which each job finishes, and the
  clock on entry and after the last job.
\<close>

record batch_env =
  glob :: "string \<Rightarrow> thrown + string list"
  job_world :: "nat \<Rightarrow> world"
  finish_time :: "nat \<Rightarrow> nat"
  batch_start :: int
  batch_end :: int

text \<open>The text of \<open>error.message\<close> in a template literal.\<close>

definition messageOf :: "thrown \<Rightarrow> string" where
  "messageOf e = (case e of ErrorObj msg \<Rightarrow> msg | OtherValue \<Rightarrow> ''undefined'')"

definition findInputFiles ::
  "node_path \<Rightarrow> batch_env \<Rightarrow> ProcessingInput \<Rightarrow> thrown + string list" where
  "findInputFiles P E inp =
     (if truthy_str (in_file inp) then Inr [the (in_file inp)]
      else if truthy_str (in_directory inp)
      then (let pattern = or_str (in_pattern inp) ''*.{mp3,wav,ogg,flac,m4a,aac}'';
                searchPattern = p_join P (the (in_directory inp)) pattern
            in glob E searchPattern)
      else Inl (ErrorObj ''No valid input specification provided''))"

definition generateBatchOutputPath ::
  "node_path \<Rightarrow> string \<Rightarrow> ProcessingInput \<Rightarrow> ProcessingOutput \<Rightarrow> string" where
  "generateBatchOutputPath P inputPath inp out =
     (if truthy_str (out_file out) then the (out_file out)
      else if truthy_str (out_directory out)
      then (let relativePath = (if truthy_str (in_directory inp)
                                then p_relative P (the (in_directory inp)) inputPath
                                else p_basename P inputPath);
                suffix = or_str (out_suffix out) ''_processed'';
                extension = (if truthy_str (out_format out) then ''.'' @ the (out_format out)
                             else p_extname P inputPath);
                nameWithoutExt = p_basename_ext P relativePath (p_extname P relativePath)
            in p_join P (the (out_directory out)) (nameWithoutExt @ suffix @ extension))
      else generateOutputFilename P inputPath None (out_suffix out) (out_format out))"

text \<open>The task the batch gives the queue for one file; the queue's promise carries its value.\<close>

definition batchTask ::
  "node_path \<Rightarrow> world \<Rightarrow> compile_fn \<Rightarrow> ProcessingInput \<Rightarrow> ProcessingOutput \<Rightarrow>
   AudioOperations \<Rightarrow> bool \<Rightarrow> string \<Rightarrow> thrown + ProcessingResult option" where
  "batchTask P W compile inp out ops overwrite inputPath =
     (let outputPath = generateBatchOutputPath P inputPath inp out
      in case compile (createFFmpegCommand inputPath) ops of
           Inl e \<Rightarrow> Inl e
         | Inr _ \<Rightarrow>
             (case processAudioFile P W compile inputPath outputPath ops overwrite of
                Inl e \<Rightarrow> Inl e
              | Inr r \<Rightarrow> Inr (Some r)))"

text \<open>
  \<open>Promise.all\<close> over \<open>n\<close> promises, given their settlements in the order in which they
  happen, each with the position of its promise: it rejects with the first rejection, and
  otherwise fulfils with an array that holds each value at the position of its promise.
  A slot that was never written holds \<open>undefined\<close>.
\<close>

fun firstRejection :: "(nat \<times> (thrown + 'a)) list \<Rightarrow> thrown option" where
  "firstRejection [] = None"
| "firstRejection ((i, Inl e) # evs) = Some e"
| "firstRejection ((i, Inr v) # evs) = firstRejection evs"

definition storeValue :: "nat \<times> (thrown + 'a option) \<Rightarrow> 'a option list \<Rightarrow> 'a option list" where
  "storeValue ev vals = (case snd ev of Inr v \<Rightarrow> vals[fst ev := v] | Inl _ \<Rightarrow> vals)"

definition promiseAll ::
  "nat \<Rightarrow> (nat \<times> (thrown + 'a option)) list \<Rightarrow> thrown + 'a option list" where
  "promiseAll n settled =
     (case firstRejection settled of
        Some e \<Rightarrow> Inl e
      | None \<Rightarrow> Inr (fold storeValue settled (replicate n None)))"

text \<open>The jobs settle in the order of their finish times.\<close>

definition completionOrder :: "batch_env \<Rightarrow> nat \<Rightarrow> nat list" where
  "completionOrder E n = sort_key (finish_time E) [0..<n]"

definition batchProcessAudio ::
  "node_path \<Rightarrow> batch_env \<Rightarrow> compile_fn \<Rightarrow> ProcessingInput \<Rightarrow> ProcessingOutput \<Rightarrow>
   AudioOperations \<Rightarrow> bool \<Rightarrow> thrown + BatchProcessingResult" where
  "batchProcessAudio P E compile inp out ops overwrite =
     (let startTime = batch_start E;
          body =
            (case findInputFiles P E inp of
               Inl e \<Rightarrow> Inl e
             | Inr inputFiles \<Rightarrow>
                 if length inputFiles = 0
                 then Inl (ErrorObj ''No audio files found matching the criteria'')
                 else
                   (let settled =
                          map (\<lambda>i. (i, batchTask P (job_world E i) compile inp out ops overwrite
                                           (inputFiles ! i)))
                              (completionOrder E (length inputFiles))
                    in case promiseAll (length inputFiles) settled of
                         Inl e \<Rightarrow> Inl e
                       | Inr allResults \<Rightarrow>
                           (let rs = List.map_filter (\<lambda>r. r) allResults;
                                totalTime = batch_end E - startTime;
                                successful = length (filter success rs);
                                failed = length rs - successful
                            in Inr \<lparr>totalFiles = length rs, successfulFiles = successful,
                                    failedFiles = failed, results = rs,
                                    totalProcessingTime = totalTime\<rparr>)))
      in case body of
           Inl e \<Rightarrow> Inl (ErrorObj (''Batch processing failed: '' @ messageOf e))
         | Inr r \<Rightarrow> Inr r)"

section \<open>AdvancedAudioProcessor.generateVariations\<close>

text \<open>
  What a variation call observes: the world of the checks before the loop, the world of
  the job of each iteration, and the value of \<open>Math.floor(Math.random() * 1000000)\<close>.
\<close>

record variation_env =
  pre_world :: world
  iter_world :: "nat \<Rightarrow> world"
  random_seed :: int

text \<open>
  The loop \<open>for (let i = 0; i < variations.count; i++)\<close>, with the iterations still to
  run, the index, the generator's state and the results so far.
\<close>

fun variationLoop ::
  "node_path \<Rightarrow> variation_env \<Rightarrow> compile_fn \<Rightarrow> string \<Rightarrow> string \<Rightarrow> VariationOperation \<Rightarrow>
   AudioOperations option \<Rightarrow> bool \<Rightarrow> nat \<Rightarrow> nat \<Rightarrow> int \<Rightarrow> ProcessingResult list \<Rightarrow>
   thrown + ProcessingResult list" where
  "variationLoop P E compile inputPath outputDirectory v baseOperations overwrite 0 i st rs =
     Inr rs"
| "variationLoop P E compile inputPath outputDirectory v baseOperations overwrite (Suc k) i st rs =
     (let (variation, st') = generateRandomVariation v st;
          variationOps = variationOperations baseOperations variation;
          outputPath = p_join P outputDirectory
                         (p_parse_name P inputPath @ ''_var'' @ show_nat (i + 1) @
                          p_extname P inputPath)
      in case processAudioFile P (iter_world E i) compile inputPath outputPath variationOps
                overwrite of
           Inl e \<Rightarrow> Inl e
         | Inr r \<Rightarrow>
             variationLoop P E compile inputPath outputDirectory v baseOperations overwrite
               k (Suc i) st' (rs @ [r]))"

definition generateVariations ::
  "node_path \<Rightarrow> variation_env \<Rightarrow> compile_fn \<Rightarrow> string \<Rightarrow> string \<Rightarrow> VariationOperation \<Rightarrow>
   AudioOperations option \<Rightarrow> bool \<Rightarrow> thrown + ProcessingResult list" where
  "generateVariations P E compile inputPath outputDirectory v baseOperations overwrite =
     (let body =
            (case validateInputFile (pre_world E) inputPath of
               Inl e \<Rightarrow> Inl e
             | Inr _ \<Rightarrow>
                 (case ensureOutputDirectory P (pre_world E) outputDirectory of
                    Inl e \<Rightarrow> Inl e
                  | Inr _ \<Rightarrow>
                      (let sd = (case seed v of
                                   None \<Rightarrow> random_seed E
                                 | Some s \<Rightarrow> if s = 0 then random_seed E else s);
                           st = createSeededRandom sd
                       in variationLoop P E compile inputPath outputDirectory v baseOperations
                            overwrite (nat (count v)) 0 st [])))
      in case body of
           Inl e \<Rightarrow> Inl (ErrorObj (''Variation generation failed: '' @ messageOf e))
         | Inr rs \<Rightarrow> Inr rs)"

section \<open>Sample surroundings for concrete runs\<close>

definition sample_path :: node_path where
  "sample_path =
     \<lparr>p_join = (\<lambda>a b. a @ ''/'' @ b),
      p_dirname = (\<lambda>p. ''out''),
      p_basename = (\<lambda>p. p),
      p_basename_ext = (\<lambda>p e. p),
      p_extname = (\<lambda>p. ''.wav''),
      p_relative = (\<lambda>d p. p),
      p_parse_name = (\<lambda>p. p)\<rparr>"

text \<open>
  A world in which the input is a readable file, the output directory can be written,
  the output file does not exist yet, and the engine succeeds after 5 ms.
\<close>

definition calm_world :: world where
  "calm_world =
     \<lparr>fs_stat = (\<lambda>p. Inr True),
      fs_access = (\<lambda>p m. if m = F_OK then Some (''ENOENT'', ''no such file or directory'')
                          else None),
      fs_mkdir = (\<lambda>p. None),
      engine = (\<lambda>c p. None),
      now_start = 100,
      now_end = 105\<rparr>"

text \<open>A world in which the engine reports an error.\<close>

definition failing_world :: world where
  "failing_world = calm_world\<lparr>engine := (\<lambda>c p. Some ''Invalid data found'')\<rparr>"

definition no_operations :: AudioOperations where
  "no_operations = \<lparr>volume = None, format = None, effects = None, advanced = None\<rparr>"

definition sample_dir_input :: ProcessingInput where
  "sample_dir_input = \<lparr>in_file = None, in_directory = Some ''in'', in_pattern = None\<rparr>"

definition sample_dir_output :: ProcessingOutput where
  "sample_dir_output =
     \<lparr>out_file = None, out_directory = Some ''out'', out_suffix = None, out_format = None\<rparr>"

text \<open>
  A batch over three files whose jobs finish in the reverse of the order in which they
  were found; the engine fails on the second file.
\<close>

definition sample_batch :: batch_env where
  "sample_batch =
     \<lparr>glob = (\<lambda>p. Inr [''a.wav'', ''b.wav'', ''c.wav'']),
      job_world = (\<lambda>i. if i = 1 then failing_world else calm_world),
      finish_time = (\<lambda>i. 3 - i),
      batch_start = 0,
      batch_end = 20\<rparr>"

definition empty_batch :: batch_env where
  "empty_batch = sample_batch\<lparr>glob := (\<lambda>p. Inr [])\<rparr>"

definition sample_variation_env :: "int \<Rightarrow> variation_env" where
  "sample_variation_env a =
     \<lparr>pre_world = calm_world, iter_world = (\<lambda>i. calm_world), random_seed = a\<rparr>"

definition seed_zero_variation :: VariationOperation where
  "seed_zero_variation =
     \<lparr>count = 1, pitchRange = Some 2, volumeRange = None, timingRange = None,
      spectralRange = None, seed = Some 0\<rparr>"

definition plain_layer :: "Blend \<Rightarrow> Layer" where
  "plain_layer b =
     \<lparr>blend = b, layer_delay = None, layer_pitch = None, layer_volume = None,
      layer_pan = None\<rparr>"

definition loop_three :: AudioOperations where
  "loop_three =
     \<lparr>volume = None, format = None,
      effects = Some \<lparr>fadeIn = None, fadeOut = None, trim = None,
                      loop = Some \<lparr>enabled = True, loop_count = 3\<rparr>\<rparr>,
      advanced = None\<rparr>"

section \<open>Facts about number text\<close>

lemma show_nat_digit: "n < 10 \<Longrightarrow> show_nat n = [''0123456789'' ! n]"
  by (simp add: show_nat.simps)

lemma fmt_integral_1: "fmt_integral 1 = ''1''"
  by (simp add: fmt_integral_def show_int_def show_nat_digit)

lemma fmt_integral_2: "fmt_integral 2 = ''2''"
  by (simp add: fmt_integral_def show_int_def show_nat_digit)

lemma fmt_integral_neg_3: "fmt_integral (- 3) = ''-3''"
  by (simp add: fmt_integral_def show_int_def show_nat_digit)

lemma fmt_integral_neg_23: "fmt_integral (- 23) = ''-23''"
  by (simp add: fmt_integral_def show_int_def show_nat.simps)

section \<open>The base compiler\<close>

lemma audio_filters_applyVolume:
  "audio_filters (applyVolume fmt vol c) =
     audio_filters c @
     (case vol of
        None \<Rightarrow> []
      | Some v \<Rightarrow>
          (case adjust v of None \<Rightarrow> [] | Some a \<Rightarrow> [''volume='' @ fmt a @ ''dB'']) @
          (if truthy_bool (normalize v)
           then [''loudnorm=I='' @ fmt (or_num (targetLUFS v) (- 23)) @ '':LRA=7:tp=-2'']
           else []))"
  by (simp add: applyVolume_def audioFilters_def Let_def split: option.splits)

lemma audio_filters_applyFormat:
  "audio_filters (applyFormat fmt fo c) = audio_filters c"
  by (simp add: applyFormat_def Let_def audioFrequency_def audioChannels_def audioCodec_def
      audioBitrate_def split: option.splits)

lemma audio_filters_applyEffects:
  "audio_filters (fst (applyEffects fmt eo c)) =
     audio_filters c @
     (case eo of
        None \<Rightarrow> []
      | Some e \<Rightarrow>
          (case fadeIn e of None \<Rightarrow> [] | Some d \<Rightarrow> [''afade=t=in:ss=0:d='' @ fmt d]) @
          (case fadeOut e of None \<Rightarrow> [] | Some s \<Rightarrow> [''afade=t=out:st='' @ fmt s @ '':d=1'']))"
  by (simp add: applyEffects_def Let_def audioFilters_def seekInput_def duration_def
      split: option.splits)

text \<open>The filter list of the compiled command: what it held, the volume directives, the fades.\<close>

lemma audio_filters_applyOperationsToCommand:
  "audio_filters (applyOperationsToCommand fmt c ops) =
     audio_filters c @
     (case volume ops of
        None \<Rightarrow> []
      | Some v \<Rightarrow>
          (case adjust v of None \<Rightarrow> [] | Some a \<Rightarrow> [''volume='' @ fmt a @ ''dB'']) @
          (if truthy_bool (normalize v)
           then [''loudnorm=I='' @ fmt (or_num (targetLUFS v) (- 23)) @ '':LRA=7:tp=-2'']
           else [])) @
     (case effects ops of
        None \<Rightarrow> []
      | Some e \<Rightarrow>
          (case fadeIn e of None \<Rightarrow> [] | Some d \<Rightarrow> [''afade=t=in:ss=0:d='' @ fmt d]) @
          (case fadeOut e of None \<Rightarrow> [] | Some s \<Rightarrow> [''afade=t=out:st='' @ fmt s @ '':d=1'']))"
  unfolding applyOperationsToCommand_def
  by (simp only: audio_filters_applyEffects audio_filters_applyFormat audio_filters_applyVolume
      append_assoc)

text \<open>
  Whatever the operations, no filter of a command compiled from a fresh command is a loop
  directive: every filter is a gain, a loudness or a fade directive.
\<close>

lemma no_loop_directive_in_command:
  "x \<in> set (audio_filters (applyOperationsToCommand fmt (createFFmpegCommand inputPath) ops))
   \<Longrightarrow> take 6 x \<noteq> ''aloop=''"
  by (auto simp add: audio_filters_applyOperationsToCommand createFFmpegCommand_def
      split: option.splits if_splits)

text \<open>
  Claim C2. A loop directive is in the compiled command's filter list exactly when
  \<open>loop.enabled\<close> holds and \<open>loop.count > 1\<close>, with repeat parameter \<open>count - 1\<close>.
  The code does not do this: for \<open>effects.loop = {enabled: true, count: 3}\<close> the
  directive with parameter 2 is pushed onto the local array after that array was handed
  to the command, so the command's filter list stays empty.
\<close>

theorem loop_directive_dropped:
  "audio_filters (applyOperationsToCommand fmt (createFFmpegCommand inputPath) loop_three) = [] \<and>
   snd (applyEffects fmt (effects loop_three) (createFFmpegCommand inputPath)) =
     [''aloop=loop='' @ fmt 2 @ '':size=samples'']"
  by (simp add: audio_filters_applyOperationsToCommand createFFmpegCommand_def applyEffects_def
      loop_three_def)

text \<open>
  Claim C8. With \<open>effects\<close> present, the compiled filter list is the list compiled
  without effects followed by the fade-in directive, when \<open>fadeIn\<close> is present, with
  start 0 and the requested value as duration, and by the fade-out directive, when
  \<open>fadeOut\<close> is present, with the requested value as start and the length 1.
\<close>

theorem fade_directives:
  assumes "effects ops = Some e"
  shows "audio_filters (applyOperationsToCommand fmt c ops) =
           audio_filters (applyOperationsToCommand fmt c (ops\<lparr>effects := None\<rparr>)) @
           (case fadeIn e of None \<Rightarrow> [] | Some d \<Rightarrow> [''afade=t=in:ss=0:d='' @ fmt d]) @
           (case fadeOut e of None \<Rightarrow> [] | Some s \<Rightarrow> [''afade=t=out:st='' @ fmt s @ '':d=1''])"
  using assms by (simp add: audio_filters_applyOperationsToCommand)

theorem fade_directives_witness:
  "effects \<lparr>volume = None, format = None,
            effects = Some \<lparr>fadeIn = Some 1, fadeOut = Some 2, trim = None, loop = None\<rparr>,
            advanced = None\<rparr>
     = Some \<lparr>fadeIn = Some 1, fadeOut = Some 2, trim = None, loop = None\<rparr> \<and>
   audio_filters (applyOperationsToCommand fmt_integral (createFFmpegCommand ''in.wav'')
      \<lparr>volume = None, format = None,
       effects = Some \<lparr>fadeIn = Some 1, fadeOut = Some 2, trim = None, loop = None\<rparr>,
       advanced = None\<rparr>) = [''afade=t=in:ss=0:d=1'', ''afade=t=out:st=2:d=1'']"
proof -
  let ?e = "\<lparr>fadeIn = Some 1, fadeOut = Some 2, trim = None, loop = None\<rparr>"
  let ?ops = "\<lparr>volume = None, format = None, effects = Some ?e, advanced = None\<rparr>"
  have h: "effects ?ops = Some ?e" by simp
  have "audio_filters (applyOperationsToCommand fmt_integral (createFFmpegCommand ''in.wav'')
          (?ops\<lparr>effects := None\<rparr>)) = []"
    by (simp add: audio_filters_applyOperationsToCommand createFFmpegCommand_def)
  then show ?thesis
    using fade_directives [OF h, of fmt_integral "createFFmpegCommand ''in.wav''"]
    by (simp add: fmt_integral_1 fmt_integral_2)
qed

text \<open>
  Claim C9. With \<open>volume.normalize\<close> true, the compiled filter list holds, after the gain
  directive if any and before the fades, one loudness directive whose target is -23 when
  \<open>targetLUFS\<close> is absent or 0 and the given value otherwise; the target is never 0.
\<close>

theorem normalize_target:
  assumes "volume ops = Some v" and "normalize v = Some True"
  shows "audio_filters (applyOperationsToCommand fmt c ops) =
           audio_filters c @
           (case adjust v of None \<Rightarrow> [] | Some a \<Rightarrow> [''volume='' @ fmt a @ ''dB'']) @
           [''loudnorm=I='' @
            fmt (case targetLUFS v of None \<Rightarrow> - 23 | Some t \<Rightarrow> if t = 0 then - 23 else t) @
            '':LRA=7:tp=-2''] @
           (case effects ops of
              None \<Rightarrow> []
            | Some e \<Rightarrow>
                (case fadeIn e of None \<Rightarrow> [] | Some d \<Rightarrow> [''afade=t=in:ss=0:d='' @ fmt d]) @
                (case fadeOut e of
                   None \<Rightarrow> []
                 | Some s \<Rightarrow> [''afade=t=out:st='' @ fmt s @ '':d=1''])) \<and>
         (case targetLUFS v of None \<Rightarrow> - 23 | Some t \<Rightarrow> if t = 0 then - 23 else t) \<noteq> 0"
  using assms
  by (simp add: audio_filters_applyOperationsToCommand truthy_bool_def or_num_def
      split: option.splits)

theorem normalize_target_witness:
  "volume \<lparr>volume = Some \<lparr>adjust = None, normalize = Some True, targetLUFS = Some 0\<rparr>,
           format = None, effects = None, advanced = None\<rparr>
     = Some \<lparr>adjust = None, normalize = Some True, targetLUFS = Some 0\<rparr> \<and>
   normalize \<lparr>adjust = None, normalize = Some True, targetLUFS = Some 0\<rparr> = Some True \<and>
   audio_filters (applyOperationsToCommand fmt_integral (createFFmpegCommand ''in.wav'')
      \<lparr>volume = Some \<lparr>adjust = None, normalize = Some True, targetLUFS = Some 0\<rparr>,
       format = None, effects = None, advanced = None\<rparr>) = [''loudnorm=I=-23:LRA=7:tp=-2'']"
proof -
  let ?v = "\<lparr>adjust = None, normalize = Some True, targetLUFS = Some 0\<rparr>"
  let ?ops = "\<lparr>volume = Some ?v, format = None, effects = None, advanced = None\<rparr>"
  have h1: "volume ?ops = Some ?v" by simp
  have h2: "normalize ?v = Some True" by simp
  show ?thesis
    using normalize_target [OF h1 h2, of fmt_integral "createFFmpegCommand ''in.wav''"]
    by (simp add: createFFmpegCommand_def fmt_integral_neg_23)
qed

section \<open>The advanced builders\<close>

text \<open>
  Claim C7. The pitch builder takes \<open>semitones * 100 + cents\<close> (cents 0 when absent) as
  total cents and \<open>2\<close> to the power \<open>totalCents / 1200\<close> as ratio, and gives the pair of
  a rate change by the ratio and a resampling back; with \<open>preserveFormants\<close> true a tempo
  directive of factor \<open>1 / ratio\<close> follows, and otherwise nothing follows. Twelve
  semitones give the ratio 2 and zero semitones the ratio 1.
\<close>

theorem pitch_filter:
  "buildPitchFilter fmt p =
     ''asetrate=44100*'' @
     fmt (2 powr ((semitones p * 100 + (case cents p of None \<Rightarrow> 0 | Some c \<Rightarrow> c)) / 1200)) @
     '',aresample=44100'' @
     (if preserveFormants p = Some True
      then '',atempo='' @
           fmt (1 / 2 powr ((semitones p * 100 + (case cents p of None \<Rightarrow> 0 | Some c \<Rightarrow> c))
                            / 1200))
      else []) \<and>
   buildPitchFilter fmt \<lparr>semitones = 12, cents = Some 0, preserveFormants = Some False\<rparr> =
     ''asetrate=44100*'' @ fmt 2 @ '',aresample=44100'' \<and>
   buildPitchFilter fmt \<lparr>semitones = 0, cents = Some 0, preserveFormants = Some False\<rparr> =
     ''asetrate=44100*'' @ fmt 1 @ '',aresample=44100''"
  by (auto simp add: buildPitchFilter_def Let_def truthy_bool_def or_num_def split: option.splits)

theorem pitch_filter_witness:
  "buildPitchFilter fmt_integral \<lparr>semitones = 12, cents = None, preserveFormants = None\<rparr> =
     ''asetrate=44100*2,aresample=44100''"
  using pitch_filter [of fmt_integral "\<lparr>semitones = 12, cents = None, preserveFormants = None\<rparr>"]
  by (simp add: fmt_integral_2)

text \<open>
  Claim C10. With \<open>midCut\<close> present, the mid-band equalizer directive carries the gain
  \<open>- |midCut|\<close>, which is never positive, between the bass and treble bands and the warmth
  and brightness bands; a value and its negation give the same filter.
\<close>

theorem midcut_gain:
  assumes "midCut s = Some m"
  shows "buildSpectralFilter fmt s =
           join '',''
             ((case bassBoost s of None \<Rightarrow> [] | Some b \<Rightarrow> [''bass=g='' @ fmt b]) @
              (case trebleBoost s of None \<Rightarrow> [] | Some t \<Rightarrow> [''treble=g='' @ fmt t]) @
              [''equalizer=f=1000:width=500:g='' @ fmt (- \<bar>m\<bar>)] @
              (case warmth s of
                 None \<Rightarrow> []
               | Some w \<Rightarrow> [''equalizer=f=200:width=100:g='' @ fmt (w * 3)]) @
              (case brightness s of
                 None \<Rightarrow> []
               | Some b \<Rightarrow> [''equalizer=f=8000:width=2000:g='' @ fmt (b * 4)])) \<and>
         - \<bar>m\<bar> \<le> 0 \<and>
         buildSpectralFilter fmt (s\<lparr>midCut := Some (- m)\<rparr>) = buildSpectralFilter fmt s"
  using assms by (simp add: buildSpectralFilter_def)

theorem midcut_gain_witness:
  "midCut \<lparr>bassBoost = None, trebleBoost = None, midCut = Some 3, warmth = None,
           brightness = None\<rparr> = Some 3 \<and>
   buildSpectralFilter fmt_integral
     \<lparr>bassBoost = None, trebleBoost = None, midCut = Some 3, warmth = None, brightness = None\<rparr>
     = ''equalizer=f=1000:width=500:g=-3'' \<and>
   buildSpectralFilter fmt_integral
     \<lparr>bassBoost = None, trebleBoost = None, midCut = Some (- 3), warmth = None,
      brightness = None\<rparr>
     = ''equalizer=f=1000:width=500:g=-3''"
proof -
  let ?s = "\<lparr>bassBoost = None, trebleBoost = None, midCut = Some 3, warmth = None,
             brightness = None\<rparr>"
  have h: "midCut ?s = Some 3" by simp
  show ?thesis
    using midcut_gain [OF h, of fmt_integral] by (simp add: fmt_integral_neg_3)
qed

text \<open>
  The layers processed are those below the input count; with more layers than inputs the
  mix-down names the first layer beyond the inputs, which was not processed.
\<close>

lemma processedIndices_below_inputs:
  "set (processedIndices inputFiles lop) =
     {i. i < length inputFiles \<and> i < length (layers lop)}"
  by (auto simp add: processedIndices_def)

lemma mix_names_unprocessed_layer:
  "length inputFiles < length (layers lop) \<Longrightarrow>
   length inputFiles \<in> set (mixIndices lop) \<and>
   length inputFiles \<notin> set (processedIndices inputFiles lop)"
  by (simp add: mixIndices_def processedIndices_def)

text \<open>
  Claim C3. With more layers than input files, the layers beyond the input count get no
  processing, and the mix-down names only streams that were produced. The code does the
  first and not the second: with one input and two layers, only layer 0 is processed,
  yet the mix-down names \<open>[processed1]\<close> and counts two inputs.
\<close>

theorem layering_excess_layers:
  "buildLayeringFilter fmt [''a.wav''] \<lparr>layers = [plain_layer Mix, plain_layer Add]\<rparr> =
     ''[0:a][processed0];[processed0][processed1]amix=inputs=2:duration=longest:dropout_transition=2[final]'' \<and>
   processedIndices [''a.wav''] \<lparr>layers = [plain_layer Mix, plain_layer Add]\<rparr> = [0] \<and>
   mixIndices \<lparr>layers = [plain_layer Mix, plain_layer Add]\<rparr> = [0, 1]"
  by (simp add: buildLayeringFilter_def processedIndices_def mixIndices_def layerFilter_def
      plain_layer_def truthy_num_def show_nat_digit upt_rec)

section \<open>The job runner\<close>

lemma processAudioFile_returns:
  "\<exists>r. processAudioFile P W compile i out ops ow = Inr r \<and> inputFile r = i"
  by (auto simp add: processAudioFile_def Let_def split: sum.splits)

text \<open>
  Claim C4. Whatever the input and whichever step fails (validation of the input,
  preparation of the output, compilation, the engine), the job runner returns one
  result and throws nothing. The result echoes the operations and carries the time from
  entry to the terminal state; it is a success exactly when every step succeeded, and a
  failure carries an error message.
\<close>

theorem job_runner_total:
  "\<exists>r. processAudioFile P W compile i out ops ow = Inr r \<and>
       inputFile r = i \<and> outputFile r = out \<and> operations r = ops \<and>
       processingTime r = now_end W - now_start W \<and>
       (success r \<longrightarrow> error r = None) \<and> (\<not> success r \<longrightarrow> error r \<noteq> None) \<and>
       (success r \<longleftrightarrow>
          validateInputFile W i = Inr () \<and> ensureOutputDirectory P W out = Inr () \<and>
          handleExistingOutput W out ow = Inr () \<and>
          (\<exists>cmd. compile (createFFmpegCommand i) ops = Inr cmd \<and>
                 executeFFmpegCommand W cmd out = Inr ()))"
  by (auto simp add: processAudioFile_def Let_def split: sum.splits)

lemma calm_steps:
  "validateInputFile calm_world i = Inr () \<and>
   ensureOutputDirectory sample_path calm_world out = Inr () \<and>
   handleExistingOutput calm_world out ow = Inr () \<and>
   executeFFmpegCommand calm_world cmd out = Inr ()"
  by (simp add: validateInputFile_def ensureOutputDirectory_def handleExistingOutput_def
      executeFFmpegCommand_def calm_world_def sample_path_def)

lemma failing_engine:
  "executeFFmpegCommand failing_world cmd out \<noteq> Inr ()"
  by (simp add: executeFFmpegCommand_def failing_world_def calm_world_def)

theorem job_runner_total_witness:
  "(\<exists>r. processAudioFile sample_path calm_world (baseCompile fmt_integral) ''in.wav''
          ''out/in_processed.wav'' no_operations False = Inr r \<and>
        success r \<and> error r = None \<and> processingTime r = 5 \<and> operations r = no_operations) \<and>
   (\<exists>r. processAudioFile sample_path failing_world (baseCompile fmt_integral) ''in.wav''
          ''out/in_processed.wav'' no_operations False = Inr r \<and>
        \<not> success r \<and> error r \<noteq> None \<and> processingTime r = 5 \<and>
        operations r = no_operations)"
proof (intro conjI)
  show "\<exists>r. processAudioFile sample_path calm_world (baseCompile fmt_integral) ''in.wav''
          ''out/in_processed.wav'' no_operations False = Inr r \<and>
        success r \<and> error r = None \<and> processingTime r = 5 \<and> operations r = no_operations"
    using job_runner_total [of sample_path calm_world "baseCompile fmt_integral" "''in.wav''"
        "''out/in_processed.wav''" no_operations False]
    by (auto simp add: calm_steps baseCompile_def) (simp_all add: calm_world_def)
  show "\<exists>r. processAudioFile sample_path failing_world (baseCompile fmt_integral) ''in.wav''
          ''out/in_processed.wav'' no_operations False = Inr r \<and>
        \<not> success r \<and> error r \<noteq> None \<and> processingTime r = 5 \<and>
        operations r = no_operations"
    using job_runner_total [of sample_path failing_world "baseCompile fmt_integral" "''in.wav''"
        "''out/in_processed.wav''" no_operations False]
    by (auto simp add: failing_engine) (simp_all add: failing_world_def calm_world_def)
qed

section \<open>Promise.all\<close>

lemma length_fold_storeValue: "length (fold storeValue evs vals) = length vals"
  by (induction evs arbitrary: vals) (auto simp add: storeValue_def split: sum.splits)

lemma nth_fold_storeValue:
  "j < length vals \<Longrightarrow>
   fold storeValue (map (\<lambda>i. (i, Inr (g i))) order) vals ! j =
     (if j \<in> set order then g j else vals ! j)"
proof (induction order arbitrary: vals)
  case Nil
  then show ?case by simp
next
  case (Cons i order)
  have "fold storeValue (map (\<lambda>i. (i, Inr (g i))) (i # order)) vals =
        fold storeValue (map (\<lambda>i. (i, Inr (g i))) order) (vals[i := g i])"
    by (simp add: storeValue_def)
  moreover have "j < length (vals[i := g i])" using Cons.prems by simp
  ultimately show ?case using Cons.IH [of "vals[i := g i]"] Cons.prems
    by (auto simp add: nth_list_update)
qed

lemma firstRejection_None:
  "firstRejection (map (\<lambda>i. (i, t i)) order) = None \<longleftrightarrow> (\<forall>i\<in>set order. \<exists>v. t i = Inr v)"
proof (induction order)
  case Nil
  then show ?case by simp
next
  case (Cons i order)
  then show ?case by (cases "t i") auto
qed

lemma set_completionOrder: "set (completionOrder E n) = {0..<n}"
  by (simp add: completionOrder_def)

text \<open>
  When every task fulfils, the array of \<open>Promise.all\<close> is in the order of the promises,
  whatever the order in which they settle.
\<close>

lemma promiseAll_fulfilled:
  assumes "\<forall>i<n. t i = Inr (g i)"
  shows "promiseAll n (map (\<lambda>i. (i, t i)) (completionOrder E n)) = Inr (map g [0..<n])"
proof -
  let ?order = "completionOrder E n"
  have same: "map (\<lambda>i. (i, t i)) ?order = map (\<lambda>i. (i, Inr (g i))) ?order"
    using assms by (simp add: set_completionOrder)
  have none: "firstRejection (map (\<lambda>i. (i, Inr (g i))) ?order) = None"
    by (simp add: firstRejection_None)
  have fill: "fold storeValue (map (\<lambda>i. (i, Inr (g i))) ?order) (replicate n None) = map g [0..<n]"
  proof (rule nth_equalityI)
    show "length (fold storeValue (map (\<lambda>i. (i, Inr (g i))) ?order) (replicate n None)) =
          length (map g [0..<n])"
      by (simp add: length_fold_storeValue)
  next
    fix j
    assume "j < length (fold storeValue (map (\<lambda>i. (i, Inr (g i))) ?order) (replicate n None))"
    then have j: "j < n" by (simp add: length_fold_storeValue)
    then show "fold storeValue (map (\<lambda>i. (i, Inr (g i))) ?order) (replicate n None) ! j =
               map g [0..<n] ! j"
      by (simp add: nth_fold_storeValue set_completionOrder)
  qed
  show ?thesis unfolding promiseAll_def same by (simp add: none fill)
qed

lemma promiseAll_Inr_tasks:
  assumes "promiseAll n (map (\<lambda>i. (i, t i)) (completionOrder E n)) = Inr vals"
  shows "\<forall>i<n. \<exists>v. t i = Inr v"
proof -
  have "firstRejection (map (\<lambda>i. (i, t i)) (completionOrder E n)) = None"
    using assms by (simp add: promiseAll_def split: option.splits)
  then show ?thesis by (simp add: firstRejection_None set_completionOrder)
qed

lemma map_filter_Some: "List.map_filter (\<lambda>r. r) (map (\<lambda>i. Some (f i)) xs) = map f xs"
  by (induction xs) (simp_all add: List.map_filter_simps)

section \<open>Batch processing\<close>

lemma processAudioFile_projr:
  "processAudioFile P W compile i out ops ow = Inr (projr (processAudioFile P W compile i out ops ow))"
  using processAudioFile_returns [of P W compile i out ops ow] by auto

lemma batchTask_compiles:
  "compile (createFFmpegCommand f) ops = Inr c \<Longrightarrow>
   batchTask P W compile inp out ops ow f =
     Inr (Some (projr (processAudioFile P W compile f (generateBatchOutputPath P f inp out) ops ow)))"
proof -
  assume c: "compile (createFFmpegCommand f) ops = Inr c"
  obtain r where r: "processAudioFile P W compile f (generateBatchOutputPath P f inp out) ops ow = Inr r"
    using processAudioFile_returns [of P W compile f "generateBatchOutputPath P f inp out" ops ow] by blast
  show ?thesis by (simp add: batchTask_def Let_def c r)
qed

lemma batchTask_Inr:
  "batchTask P W compile inp out ops ow f = Inr v \<Longrightarrow>
   \<exists>c. compile (createFFmpegCommand f) ops = Inr c"
  by (auto simp add: batchTask_def Let_def split: sum.splits)

lemma batchProcessAudio_unfold:
  assumes "findInputFiles P E inp = Inr files" and "files \<noteq> []"
  shows "batchProcessAudio P E compile inp out ops ow =
     (case promiseAll (length files)
             (map (\<lambda>i. (i, batchTask P (job_world E i) compile inp out ops ow (files ! i)))
                  (completionOrder E (length files))) of
        Inl e \<Rightarrow> Inl (ErrorObj (''Batch processing failed: '' @ messageOf e))
      | Inr allResults \<Rightarrow>
          Inr \<lparr>totalFiles = length (List.map_filter (\<lambda>r. r) allResults),
               successfulFiles = length (filter success (List.map_filter (\<lambda>r. r) allResults)),
               failedFiles = length (List.map_filter (\<lambda>r. r) allResults) -
                             length (filter success (List.map_filter (\<lambda>r. r) allResults)),
               results = List.map_filter (\<lambda>r. r) allResults,
               totalProcessingTime = batch_end E - batch_start E\<rparr>)"
  using assms by (simp add: batchProcessAudio_def Let_def split: sum.splits)

lemma batchProcessAudio_returns:
  assumes files: "findInputFiles P E inp = Inr files" "files \<noteq> []"
    and comp: "\<forall>i<length files. \<exists>c. compile (createFFmpegCommand (files ! i)) ops = Inr c"
  shows "batchProcessAudio P E compile inp out ops ow =
     Inr \<lparr>totalFiles = length files,
          successfulFiles = length (filter success
             (map (\<lambda>i. projr (processAudioFile P (job_world E i) compile (files ! i)
                                 (generateBatchOutputPath P (files ! i) inp out) ops ow))
                  [0..<length files])),
          failedFiles = length files - length (filter success
             (map (\<lambda>i. projr (processAudioFile P (job_world E i) compile (files ! i)
                                 (generateBatchOutputPath P (files ! i) inp out) ops ow))
                  [0..<length files])),
          results = map (\<lambda>i. projr (processAudioFile P (job_world E i) compile (files ! i)
                                 (generateBatchOutputPath P (files ! i) inp out) ops ow))
                  [0..<length files],
          totalProcessingTime = batch_end E - batch_start E\<rparr>"
proof -
  let ?r = "\<lambda>i. projr (processAudioFile P (job_world E i) compile (files ! i)
                                 (generateBatchOutputPath P (files ! i) inp out) ops ow)"
  let ?t = "\<lambda>i. batchTask P (job_world E i) compile inp out ops ow (files ! i)"
  have "\<forall>i<length files. ?t i = Inr (Some (?r i))"
    using comp batchTask_compiles by blast
  then have "promiseAll (length files) (map (\<lambda>i. (i, ?t i)) (completionOrder E (length files)))
             = Inr (map (\<lambda>i. Some (?r i)) [0..<length files])"
    by (rule promiseAll_fulfilled)
  then show ?thesis
    by (simp add: batchProcessAudio_unfold [OF files] map_filter_Some)
qed

lemma batchProcessAudio_Inr_compiles:
  assumes files: "findInputFiles P E inp = Inr files" "files \<noteq> []"
    and ret: "batchProcessAudio P E compile inp out ops ow = Inr br"
  shows "\<forall>i<length files. \<exists>c. compile (createFFmpegCommand (files ! i)) ops = Inr c"
proof -
  let ?t = "\<lambda>i. batchTask P (job_world E i) compile inp out ops ow (files ! i)"
  obtain vals where
    "promiseAll (length files) (map (\<lambda>i. (i, ?t i)) (completionOrder E (length files))) = Inr vals"
    using ret by (auto simp add: batchProcessAudio_unfold [OF files] split: sum.splits)
  then have "\<forall>i<length files. \<exists>v. ?t i = Inr v"
    by (rule promiseAll_Inr_tasks)
  then show ?thesis using batchTask_Inr by blast
qed

lemma batchProcessAudio_empty:
  "findInputFiles P E inp = Inr [] \<Longrightarrow>
   batchProcessAudio P E compile inp out ops ow =
     Inl (ErrorObj ''Batch processing failed: No audio files found matching the criteria'')"
  by (simp add: batchProcessAudio_def messageOf_def)

lemma batchProcessAudio_Inr_files:
  "batchProcessAudio P E compile inp out ops ow = Inr br \<Longrightarrow>
   \<exists>files. findInputFiles P E inp = Inr files \<and> files \<noteq> []"
  by (auto simp add: batchProcessAudio_def Let_def split: sum.splits if_splits)

lemma map_inputFile_results:
  "map inputFile (map (\<lambda>i. projr (processAudioFile P (W i) compile (files ! i) (g i) ops ow))
                      [0..<length files]) = files"
proof (rule nth_equalityI)
  show "length (map inputFile (map (\<lambda>i. projr (processAudioFile P (W i) compile (files ! i) (g i) ops ow))
                      [0..<length files])) = length files" by simp
next
  fix j
  assume "j < length (map inputFile (map (\<lambda>i. projr (processAudioFile P (W i) compile (files ! i) (g i) ops ow))
                      [0..<length files]))"
  then have j: "j < length files" by simp
  obtain r where "processAudioFile P (W j) compile (files ! j) (g j) ops ow = Inr r"
    "inputFile r = files ! j"
    using processAudioFile_returns [of P "W j" compile "files ! j" "g j" ops ow] by auto
  then show "map inputFile (map (\<lambda>i. projr (processAudioFile P (W i) compile (files ! i) (g i) ops ow))
                      [0..<length files]) ! j = files ! j"
    using j by simp
qed

text \<open>
  Claim C6. A batch over a non-empty list of found files returns a result as soon as the
  compilation before each job does not throw, and every result it returns has
  \<open>totalFiles\<close> equal to the number of files, one entry per file, \<open>totalFiles\<close> equal to
  \<open>successfulFiles + failedFiles\<close>, \<open>successfulFiles\<close> equal to the number of successful
  entries, and the entries in the order in which the files were found: entry \<open>i\<close> is the
  result of the job on file \<open>i\<close>, whatever the times at which the jobs finish.
\<close>

theorem batch_result_shape:
  assumes files: "findInputFiles P E inp = Inr files" "files \<noteq> []"
  shows "((\<forall>i<length files. \<exists>c. compile (createFFmpegCommand (files ! i)) ops = Inr c) \<longrightarrow>
            (\<exists>br. batchProcessAudio P E compile inp out ops ow = Inr br)) \<and>
         (\<forall>br. batchProcessAudio P E compile inp out ops ow = Inr br \<longrightarrow>
            totalFiles br = length files \<and>
            length (results br) = length files \<and>
            totalFiles br = successfulFiles br + failedFiles br \<and>
            successfulFiles br = length (filter success (results br)) \<and>
            map inputFile (results br) = files \<and>
            (\<forall>i<length files.
               processAudioFile P (job_world E i) compile (files ! i)
                 (generateBatchOutputPath P (files ! i) inp out) ops ow = Inr (results br ! i)))"
proof (intro conjI allI impI)
  assume "\<forall>i<length files. \<exists>c. compile (createFFmpegCommand (files ! i)) ops = Inr c"
  then show "\<exists>br. batchProcessAudio P E compile inp out ops ow = Inr br"
    using batchProcessAudio_returns [where compile = compile and ops = ops, OF files] by blast
next
  fix br
  assume ret: "batchProcessAudio P E compile inp out ops ow = Inr br"
  let ?rs = "map (\<lambda>i. projr (processAudioFile P (job_world E i) compile (files ! i)
                                 (generateBatchOutputPath P (files ! i) inp out) ops ow))
                  [0..<length files]"
  have comp: "\<forall>i<length files. \<exists>c. compile (createFFmpegCommand (files ! i)) ops = Inr c"
    by (rule batchProcessAudio_Inr_compiles [OF files ret])
  have "batchProcessAudio P E compile inp out ops ow =
        Inr \<lparr>totalFiles = length files,
          successfulFiles = length (filter success ?rs),
          failedFiles = length files - length (filter success ?rs),
          results = ?rs,
          totalProcessingTime = batch_end E - batch_start E\<rparr>"
    by (rule batchProcessAudio_returns
          [where compile = compile and ops = ops and out = out and ow = ow, OF files comp])
  with ret have br: "br = \<lparr>totalFiles = length files,
          successfulFiles = length (filter success ?rs),
          failedFiles = length files - length (filter success ?rs),
          results = ?rs,
          totalProcessingTime = batch_end E - batch_start E\<rparr>"
    by (simp only: sum.inject)
  have le: "length (filter success ?rs) \<le> length files"
    using length_filter_le [of success ?rs] by simp
  show "totalFiles br = length files" unfolding br by simp
  show "length (results br) = length files" unfolding br by simp
  show "totalFiles br = successfulFiles br + failedFiles br"
    unfolding br using le by simp
  show "successfulFiles br = length (filter success (results br))"
    unfolding br by (simp only: BatchProcessingResult.simps)
  show "map inputFile (results br) = files"
    unfolding br by (simp only: BatchProcessingResult.simps map_inputFile_results)
  fix i assume "i < length files"
  then show "processAudioFile P (job_world E i) compile (files ! i)
                 (generateBatchOutputPath P (files ! i) inp out) ops ow = Inr (results br ! i)"
    unfolding br using processAudioFile_projr by simp
qed

lemma sample_batch_files:
  "findInputFiles sample_path sample_batch sample_dir_input = Inr [''a.wav'', ''b.wav'', ''c.wav'']"
  by (simp add: findInputFiles_def sample_dir_input_def sample_batch_def truthy_str_def)

lemma list_of_length_3: "length xs = 3 \<Longrightarrow> xs = [xs ! 0, xs ! 1, xs ! 2]"
  by (auto simp add: numeral_3_eq_3 length_Suc_conv)

lemma sample_jobs:
  "\<exists>r. processAudioFile sample_path (job_world sample_batch 0) (baseCompile fmt) f out ops ow
         = Inr r \<and> success r"
  "\<exists>r. processAudioFile sample_path (job_world sample_batch 1) (baseCompile fmt) f out ops ow
         = Inr r \<and> \<not> success r"
  "\<exists>r. processAudioFile sample_path (job_world sample_batch 2) (baseCompile fmt) f out ops ow
         = Inr r \<and> success r"
  by (simp_all add: processAudioFile_def sample_batch_def calm_steps baseCompile_def Let_def
      failing_world_def validateInputFile_def ensureOutputDirectory_def
      handleExistingOutput_def executeFFmpegCommand_def calm_world_def sample_path_def)

theorem batch_result_shape_witness:
  "findInputFiles sample_path sample_batch sample_dir_input =
     Inr [''a.wav'', ''b.wav'', ''c.wav''] \<and>
   completionOrder sample_batch 3 = [2, 1, 0] \<and>
   (\<exists>br. batchProcessAudio sample_path sample_batch (baseCompile fmt_integral)
            sample_dir_input sample_dir_output no_operations False = Inr br \<and>
         totalFiles br = 3 \<and>
         map inputFile (results br) = [''a.wav'', ''b.wav'', ''c.wav''] \<and>
         map success (results br) = [True, False, True] \<and>
         successfulFiles br = 2 \<and> failedFiles br = 1)"
proof -
  let ?files = "[''a.wav'', ''b.wav'', ''c.wav'']"
  have ne: "?files \<noteq> []" by simp
  note shape = batch_result_shape [where compile = "baseCompile fmt_integral"
      and ops = no_operations and out = sample_dir_output and ow = False,
      OF sample_batch_files ne]
  have "\<forall>i<length ?files.
          \<exists>c. baseCompile fmt_integral (createFFmpegCommand (?files ! i)) no_operations = Inr c"
    by (simp add: baseCompile_def)
  with shape obtain br where
    br: "batchProcessAudio sample_path sample_batch (baseCompile fmt_integral)
           sample_dir_input sample_dir_output no_operations False = Inr br"
    by blast
  with shape have props:
    "totalFiles br = length ?files" "length (results br) = length ?files"
    "totalFiles br = successfulFiles br + failedFiles br"
    "successfulFiles br = length (filter success (results br))"
    "map inputFile (results br) = ?files"
    and jobs: "\<forall>i<length ?files.
       processAudioFile sample_path (job_world sample_batch i) (baseCompile fmt_integral)
         (?files ! i) (generateBatchOutputPath sample_path (?files ! i) sample_dir_input
                         sample_dir_output) no_operations False = Inr (results br ! i)"
    by blast+
  have s0: "success (results br ! 0)"
    using jobs [rule_format, of 0] sample_jobs(1) [of fmt_integral "?files ! 0"
        "generateBatchOutputPath sample_path (?files ! 0) sample_dir_input sample_dir_output"
        no_operations False]
    by auto
  have s1: "\<not> success (results br ! 1)"
    using jobs [rule_format, of 1] sample_jobs(2) [of fmt_integral "?files ! 1"
        "generateBatchOutputPath sample_path (?files ! 1) sample_dir_input sample_dir_output"
        no_operations False]
    by auto
  have s2: "success (results br ! 2)"
    using jobs [rule_format, of 2] sample_jobs(3) [of fmt_integral "?files ! 2"
        "generateBatchOutputPath sample_path (?files ! 2) sample_dir_input sample_dir_output"
        no_operations False]
    by auto
  have "length (results br) = 3" using props(2) by simp
  then have rs: "results br = [results br ! 0, results br ! 1, results br ! 2]"
    by (rule list_of_length_3)
  have succ: "map success (results br) = [True, False, True]"
    by (subst rs) (use s0 s1 s2 in simp)
  have n2: "successfulFiles br = 2"
    unfolding props(4) by (subst rs) (use s0 s1 s2 in simp)
  have order: "completionOrder sample_batch 3 = [2, 1, 0]"
    by (simp add: completionOrder_def sample_batch_def upt_rec)
  show ?thesis
    using sample_batch_files order br props succ n2 by auto
qed

text \<open>
  Claim C5. When the source resolves to an empty list of files, the batch call throws
  the error that no audio files were found; no result the batch call returns has
  \<open>totalFiles = 0\<close>.
\<close>

theorem batch_no_files:
  "(findInputFiles P E inp = Inr [] \<longrightarrow>
      batchProcessAudio P E compile inp out ops ow =
        Inl (ErrorObj ''Batch processing failed: No audio files found matching the criteria'')) \<and>
   (\<forall>br. batchProcessAudio P E compile inp out ops ow = Inr br \<longrightarrow> totalFiles br \<noteq> 0)"
proof (intro conjI allI impI)
  assume "findInputFiles P E inp = Inr []"
  then show "batchProcessAudio P E compile inp out ops ow =
        Inl (ErrorObj ''Batch processing failed: No audio files found matching the criteria'')"
    by (rule batchProcessAudio_empty)
next
  fix br
  assume ret: "batchProcessAudio P E compile inp out ops ow = Inr br"
  then obtain files where files: "findInputFiles P E inp = Inr files" "files \<noteq> []"
    using batchProcessAudio_Inr_files by blast
  have comp: "\<forall>i<length files. \<exists>c. compile (createFFmpegCommand (files ! i)) ops = Inr c"
    by (rule batchProcessAudio_Inr_compiles [OF files ret])
  have "\<exists>x. batchProcessAudio P E compile inp out ops ow = Inr x \<and> totalFiles x = length files"
    by (simp add: batchProcessAudio_returns
          [where compile = compile and ops = ops and out = out and ow = ow, OF files comp])
  with ret have "totalFiles br = length files"
    by auto
  then show "totalFiles br \<noteq> 0" using files by simp
qed

lemma empty_batch_files:
  "findInputFiles sample_path empty_batch sample_dir_input = Inr []"
  by (simp add: findInputFiles_def sample_dir_input_def sample_batch_def empty_batch_def
      truthy_str_def)

theorem batch_no_files_witness:
  "findInputFiles sample_path empty_batch sample_dir_input = Inr [] \<and>
   batchProcessAudio sample_path empty_batch (baseCompile fmt_integral) sample_dir_input
     sample_dir_output no_operations False =
     Inl (ErrorObj ''Batch processing failed: No audio files found matching the criteria'') \<and>
   (\<exists>br. batchProcessAudio sample_path sample_batch (baseCompile fmt_integral)
            sample_dir_input sample_dir_output no_operations False = Inr br \<and>
         totalFiles br \<noteq> 0)"
proof -
  have ne: "[''a.wav'', ''b.wav'', ''c.wav''] \<noteq> []" by simp
  have "\<exists>br. batchProcessAudio sample_path sample_batch (baseCompile fmt_integral)
            sample_dir_input sample_dir_output no_operations False = Inr br"
    by (simp add: batchProcessAudio_returns [where compile = "baseCompile fmt_integral"
          and ops = no_operations, OF sample_batch_files ne] baseCompile_def)
  then show ?thesis
    using empty_batch_files
      batch_no_files [of sample_path empty_batch sample_dir_input "baseCompile fmt_integral"
        sample_dir_output no_operations False]
      batch_no_files [of sample_path sample_batch sample_dir_input "baseCompile fmt_integral"
        sample_dir_output no_operations False]
    by blast
qed

section \<open>Variations\<close>

lemma variationLoop_random_seed:
  "variationLoop P (E\<lparr>random_seed := a\<rparr>) compile i od v b ow k j st rs =
   variationLoop P E compile i od v b ow k j st rs"
  by (induction k arbitrary: j st rs) (simp_all add: Let_def split: prod.splits sum.splits)

lemma generateVariations_seeded:
  "seed v = Some s \<Longrightarrow> s \<noteq> 0 \<Longrightarrow>
   generateVariations P (E\<lparr>random_seed := a\<rparr>) compile i od v b ow =
   generateVariations P E compile i od v b ow"
  by (simp add: generateVariations_def variationLoop_random_seed Let_def split: sum.splits)

lemma rng_1: "rng 1 = (1015568748, 1015568748 / 4294967296)"
  by (simp add: rng_def js_rem_def Let_def)

lemma rng_2: "rng 2 = (1017233273, 1017233273 / 4294967296)"
  by (simp add: rng_def js_rem_def Let_def)

text \<open>
  Claim C1. With an explicit seed, two runs of the variation generator give the same
  sequence of perturbations. The code does not do this for the seed 0: \<open>seed || ...\<close>
  takes 0 for an absent seed and draws one from the ambient random source, so two runs
  on the same input with the explicit seed 0 give different pitch shifts when that source
  gives 1 in one run and 2 in the other.
\<close>

theorem seed_zero_not_reproducible:
  "\<exists>r1 r2.
     generateVariations sample_path (sample_variation_env 1) (advancedCompile fmt)
       ''in.wav'' ''out'' seed_zero_variation None False = Inr [r1] \<and>
     generateVariations sample_path (sample_variation_env 2) (advancedCompile fmt)
       ''in.wav'' ''out'' seed_zero_variation None False = Inr [r2] \<and>
     map_option pitch (advanced (operations r1)) =
       Some (Some \<lparr>semitones = (1015568748 / 4294967296 - 0.5) * 2 * 2, cents = None,
                    preserveFormants = None\<rparr>) \<and>
     map_option pitch (advanced (operations r2)) =
       Some (Some \<lparr>semitones = (1017233273 / 4294967296 - 0.5) * 2 * 2, cents = None,
                    preserveFormants = None\<rparr>) \<and>
     operations r1 \<noteq> operations r2"
  by (simp add: generateVariations_def sample_variation_env_def seed_zero_variation_def
      calm_world_def sample_path_def validateInputFile_def ensureOutputDirectory_def
      createSeededRandom_def generateRandomVariation_def truthy_num_def rng_1 rng_2
      noAdvanced_def variationOperations_def spreadAdvanced_def processAudioFile_def
      handleExistingOutput_def advancedCompile_def executeFFmpegCommand_def Let_def)

end
